theory Spec2Isabelle
  imports Main
begin

section \<open>Python values, list objects and exceptions\<close>

text \<open>
  The builders of \<^verbatim>\<open>nclist.py\<close> work on Python lists that are shared and
  mutated in place: an interval record is a list of slots, a nested list is a list of
  records, and \<^verbatim>\<open>lastAdded[sublistIndex] = curList\<close> stores a reference to a
  list that later \<^verbatim>\<open>append\<close> calls still extend. List objects therefore live in
  an explicit store. An address is the position of the object in the store; allocation
  adds an object at the end.

  A slot holds \<^verbatim>\<open>None\<close>, an integer or a reference to a list object.
\<close>

type_synonym addr = nat

datatype pyval = PNone | PInt int | PRef addr

type_synonym heap = "pyval list list"

text \<open>
  The exceptions the code can raise. \<open>BadAddress\<close> has no Python counterpart: it is
  what the model answers for an address outside the store, which a Python reference
  never is.
\<close>

datatype error =
    InputNotSortedError
  | TypeError
  | AttributeError
  | IndexError
  | NameError
  | BadAddress

definition ebind :: "error + 'a \<Rightarrow> ('a \<Rightarrow> error + 'b) \<Rightarrow> error + 'b" where
  "ebind m f = (case m of Inl e \<Rightarrow> Inl e | Inr x \<Rightarrow> f x)"

text \<open>
  Python indexing of a list of \<open>n\<close> elements: \<open>0 .. n-1\<close> count from the front,
  \<open>-n .. -1\<close> from the back, anything else raises \<^verbatim>\<open>IndexError\<close>.
\<close>

definition norm_index :: "nat \<Rightarrow> int \<Rightarrow> nat option" where
  "norm_index n i =
     (if 0 \<le> i \<and> i < int n then Some (nat i)
      else if i < 0 \<and> - int n \<le> i then Some (nat (int n + i))
      else None)"

text \<open>\<^verbatim>\<open>xs[i]\<close> on a Python list held by value.\<close>

definition list_get :: "'a list \<Rightarrow> int \<Rightarrow> error + 'a" where
  "list_get xs i =
     (case norm_index (length xs) i of
        None \<Rightarrow> Inl IndexError
      | Some k \<Rightarrow> Inr (xs ! k))"

text \<open>
  \<^verbatim>\<open>v[i]\<close>: subscripting \<^verbatim>\<open>None\<close> or an integer is a \<^verbatim>\<open>TypeError\<close>.
\<close>

definition getitem :: "heap \<Rightarrow> pyval \<Rightarrow> int \<Rightarrow> error + pyval" where
  "getitem h v i =
     (case v of
        PNone \<Rightarrow> Inl TypeError
      | PInt _ \<Rightarrow> Inl TypeError
      | PRef a \<Rightarrow> if a < length h then list_get (h ! a) i else Inl BadAddress)"

text \<open>\<^verbatim>\<open>v[i] = x\<close>: the object at the address of \<open>v\<close> is updated in place.\<close>

definition setitem :: "heap \<Rightarrow> pyval \<Rightarrow> int \<Rightarrow> pyval \<Rightarrow> error + heap" where
  "setitem h v i x =
     (case v of
        PNone \<Rightarrow> Inl TypeError
      | PInt _ \<Rightarrow> Inl TypeError
      | PRef a \<Rightarrow>
          if a < length h then
            (case norm_index (length (h ! a)) i of
               None \<Rightarrow> Inl IndexError
             | Some k \<Rightarrow> Inr (h[a := (h ! a)[k := x]]))
          else Inl BadAddress)"

text \<open>\<^verbatim>\<open>lst.append(x)\<close> on the list object at address \<open>a\<close>.\<close>

definition list_append :: "heap \<Rightarrow> addr \<Rightarrow> pyval \<Rightarrow> error + heap" where
  "list_append h a x =
     (if a < length h then Inr (h[a := h ! a @ [x]]) else Inl BadAddress)"

text \<open>A list display \<^verbatim>\<open>[...]\<close> creates a new object.\<close>

definition alloc :: "heap \<Rightarrow> pyval list \<Rightarrow> addr \<times> heap" where
  "alloc h xs = (length h, h @ [xs])"

text \<open>
  The start and end slots hold integers (the import script converts them with
  \<^verbatim>\<open>int\<close>). The order comparisons and \<^verbatim>\<open>max\<close> are modelled on integers; with
  another operand the model raises \<^verbatim>\<open>TypeError\<close>, as Python 3 does (Python 2 would
  order \<^verbatim>\<open>None\<close> before every integer). Equality never raises in Python; the model
  compares integers, \<^verbatim>\<open>None\<close> and references (by address), and operands of different
  kinds are unequal. Every concrete evaluation below compares integers only.
\<close>

fun py_gt :: "pyval \<Rightarrow> pyval \<Rightarrow> error + bool" where
  "py_gt (PInt a) (PInt b) = Inr (a > b)"
| "py_gt _ _ = Inl TypeError"

fun py_lt :: "pyval \<Rightarrow> pyval \<Rightarrow> error + bool" where
  "py_lt (PInt a) (PInt b) = Inr (a < b)"
| "py_lt _ _ = Inl TypeError"

fun py_max :: "pyval \<Rightarrow> pyval \<Rightarrow> error + pyval" where
  "py_max (PInt a) (PInt b) = Inr (PInt (max a b))"
| "py_max _ _ = Inl TypeError"

definition py_eq :: "pyval \<Rightarrow> pyval \<Rightarrow> bool" where
  "py_eq v w = (v = w)"

text \<open>
  Calling a value: none of \<^verbatim>\<open>None\<close>, an integer or a list is callable.
\<close>

fun py_call :: "pyval \<Rightarrow> pyval \<Rightarrow> error + pyval" where
  "py_call PNone arg = Inl TypeError"
| "py_call (PInt n) arg = Inl TypeError"
| "py_call (PRef a) arg = Inl TypeError"

section \<open>NCList\<close>

text \<open>
  The object state of \<^verbatim>\<open>class NCList\<close>. \<open>curList\<close> and \<open>topList\<close> are
  addresses of list objects in the store; \<open>sublistStack\<close> is private to the object and
  never escapes, so it is kept by value, in Python order (the top of the stack is the
  last element).
\<close>

record NCList =
  startIndex :: int
  endIndex :: int
  sublistIndex :: int
  sublistStack :: "addr list"
  count :: int
  lastAdded :: pyval
  minStart :: pyval
  maxEnd :: pyval
  curList :: addr
  topList :: addr
  ID :: pyval

text \<open>\<^verbatim>\<open>NCList.__init__\<close>: \<^verbatim>\<open>self.curList = []\<close> allocates the top list.\<close>

definition NCList_init :: "int \<Rightarrow> int \<Rightarrow> int \<Rightarrow> heap \<Rightarrow> NCList \<times> heap" where
  "NCList_init startIx endIx sublistIx h =
     (case alloc h [] of (a, h') \<Rightarrow>
        (\<lparr> startIndex = startIx, endIndex = endIx, sublistIndex = sublistIx,
            sublistStack = [], count = 0, lastAdded = PNone,
            minStart = PNone, maxEnd = PNone,
            curList = a, topList = a, ID = PNone \<rparr>, h'))"

text \<open>
  The sortedness test shared by \<^verbatim>\<open>addFeatures\<close> and \<^verbatim>\<open>addSorted\<close>:
  \<^verbatim>\<open>last[start] > feat[start] or (last[start] == feat[start] and last[end] < feat[end])\<close>,
  evaluated left to right with Python's short-circuiting.
\<close>

definition notSorted :: "heap \<Rightarrow> pyval \<Rightarrow> pyval \<Rightarrow> int \<Rightarrow> int \<Rightarrow> error + bool" where
  "notSorted h lastf feat startIx endIx =
     ebind (getitem h lastf startIx) (\<lambda>ls.
     ebind (getitem h feat startIx) (\<lambda>fs.
     ebind (py_gt ls fs) (\<lambda>gt.
       if gt then Inr True
       else if \<not> py_eq ls fs then Inr False
       else
         ebind (getitem h lastf endIx) (\<lambda>le.
         ebind (getitem h feat endIx) (\<lambda>fe.
           py_lt le fe)))))"

text \<open>
  The \<^verbatim>\<open>while True\<close> loop of \<^verbatim>\<open>_addSingle\<close>. It returns the list the record
  was appended to (or the exception), the remaining stack and the store.
\<close>

function findSublist ::
  "heap \<Rightarrow> pyval \<Rightarrow> int \<Rightarrow> addr list \<Rightarrow> addr \<Rightarrow> (error + addr) \<times> addr list \<times> heap" where
  "findSublist h feat endIx stack cur =
     (if length stack = 0 then
        (case list_append h cur feat of
           Inl e \<Rightarrow> (Inl e, stack, h)
         | Inr h' \<Rightarrow> (Inr cur, stack, h'))
      else
        (case ebind (getitem h (PRef (last stack)) (- 1)) (\<lambda>lf.
              ebind (getitem h lf endIx) (\<lambda>le.
              ebind (getitem h feat endIx) (\<lambda>fe.
                py_gt le fe))) of
           Inl e \<Rightarrow> (Inl e, stack, h)
         | Inr gt \<Rightarrow>
             if gt then
               (case list_append h cur feat of
                  Inl e \<Rightarrow> (Inl e, stack, h)
                | Inr h' \<Rightarrow> (Inr cur, stack, h'))
             else findSublist h feat endIx (butlast stack) (last stack)))"
  by pat_completeness auto
termination
  by (relation "measure (\<lambda>(h, feat, endIx, stack, cur). length stack)") auto

text \<open>
  \<^verbatim>\<open>NCList._addSingle\<close>. The stack is the caller's \<^verbatim>\<open>self.sublistStack\<close>,
  mutated in place, so it is returned with the store also when an exception is raised.
\<close>

definition addSingle ::
  "heap \<Rightarrow> pyval \<Rightarrow> pyval \<Rightarrow> addr list \<Rightarrow> addr \<Rightarrow> int \<Rightarrow> int
     \<Rightarrow> (error + addr) \<times> addr list \<times> heap" where
  "addSingle h feat lastf stack cur endIx sublistIx =
     (case ebind (getitem h feat endIx) (\<lambda>fe.
           ebind (getitem h lastf endIx) (\<lambda>le. py_lt fe le)) of
        Inl e \<Rightarrow> (Inl e, stack, h)
      | Inr inside \<Rightarrow>
          if inside then
            (case alloc h [feat] of (c, h1) \<Rightarrow>
               (case setitem h1 lastf sublistIx (PRef c) of
                  Inl e \<Rightarrow> (Inl e, stack @ [cur], h1)
                | Inr h2 \<Rightarrow> (Inr c, stack @ [cur], h2)))
          else findSublist h feat endIx stack cur)"

text \<open>
  The \<^verbatim>\<open>for feat in features\<close> loop of \<^verbatim>\<open>addFeatures\<close>. The result is the
  exception raised, if any, with the object and the store as they are at that moment.
\<close>

fun addFeatures_loop :: "pyval list \<Rightarrow> NCList \<Rightarrow> heap \<Rightarrow> error option \<times> NCList \<times> heap" where
  "addFeatures_loop [] n h = (None, n, h)"
| "addFeatures_loop (feat # rest) n h =
     (case notSorted h (lastAdded n) feat (startIndex n) (endIndex n) of
        Inl e \<Rightarrow> (Some e, n, h)
      | Inr True \<Rightarrow> (Some InputNotSortedError, n, h)
      | Inr False \<Rightarrow>
          (case ebind (getitem h feat (endIndex n)) (py_max (maxEnd n)) of
             Inl e \<Rightarrow> (Some e, n, h)
           | Inr m \<Rightarrow>
               (let n1 = n\<lparr>maxEnd := m\<rparr> in
                case addSingle h feat (lastAdded n1) (sublistStack n1) (curList n1)
                       (endIndex n1) (sublistIndex n1) of
                  (Inl e, stack, h') \<Rightarrow> (Some e, n1\<lparr>sublistStack := stack\<rparr>, h')
                | (Inr c, stack, h') \<Rightarrow>
                    addFeatures_loop rest
                      (n1\<lparr>sublistStack := stack, curList := c, lastAdded := feat\<rparr>) h')))"

text \<open>
  \<^verbatim>\<open>NCList.addFeatures\<close>. The argument list is only read (and copied by the
  slice), so it is passed by value. The guard is the source's
  \<^verbatim>\<open>if (self.lastAdded is not None)\<close>.
\<close>

definition addFeatures :: "NCList \<Rightarrow> pyval list \<Rightarrow> heap \<Rightarrow> error option \<times> NCList \<times> heap" where
  "addFeatures n features h =
     (if lastAdded n \<noteq> PNone then
        (case list_get features 0 of
           Inl e \<Rightarrow> (Some e, n, h)
         | Inr f0 \<Rightarrow>
             (let n1 = n\<lparr>lastAdded := f0\<rparr>; rest = drop 1 features in
              case getitem h (lastAdded n1) (startIndex n1) of
                Inl e \<Rightarrow> (Some e, n1, h)
              | Inr s \<Rightarrow>
                  (let n2 = n1\<lparr>minStart := s\<rparr> in
                   case getitem h (lastAdded n2) (endIndex n2) of
                     Inl e \<Rightarrow> (Some e, n2, h)
                   | Inr e' \<Rightarrow>
                       (let n3 = n2\<lparr>maxEnd := e'\<rparr> in
                        case list_append h (curList n3) (lastAdded n3) of
                          Inl e \<Rightarrow> (Some e, n3, h)
                        | Inr h' \<Rightarrow> addFeatures_loop rest n3 h'))))
      else addFeatures_loop features n h)"

text \<open>The property \<^verbatim>\<open>nestedList\<close> returns \<^verbatim>\<open>self.topList\<close>.\<close>

definition nestedList :: "NCList \<Rightarrow> pyval" where
  "nestedList n = PRef (topList n)"

section \<open>LazyLevel\<close>

text \<open>
  What the list \<^verbatim>\<open>ncls\<close> of a level holds: \<^verbatim>\<open>NCList\<close> objects, and, since
  \<^verbatim>\<open>findContainingNcl\<close> also appends \<^verbatim>\<open>lazyFeat\<close> to it, plain values.
\<close>

datatype item = Ncl NCList | Val pyval

text \<open>
  The object state of \<^verbatim>\<open>class LazyLevel\<close>. \<open>current\<close> and \<open>ncls\<close> never
  escape the level and are kept by value, in Python order.
\<close>

record LazyLevel =
  precedingFeat :: pyval
  current :: "pyval list"
  chunkSize :: int
  ncls :: "item list"

definition LazyLevel_init :: LazyLevel where
  "LazyLevel_init = \<lparr> precedingFeat = PNone, current = [], chunkSize = 0, ncls = [] \<rparr>"

text \<open>
  Attribute reads on an element of \<^verbatim>\<open>ncls\<close>: a list or \<^verbatim>\<open>None\<close> has no
  attribute \<^verbatim>\<open>maxEnd\<close>, \<^verbatim>\<open>nestedList\<close> or \<^verbatim>\<open>ID\<close>.
\<close>

definition item_maxEnd :: "item \<Rightarrow> error + pyval" where
  "item_maxEnd it = (case it of Ncl n \<Rightarrow> Inr (maxEnd n) | Val v \<Rightarrow> Inl AttributeError)"

definition item_nestedList :: "item \<Rightarrow> error + pyval" where
  "item_nestedList it = (case it of Ncl n \<Rightarrow> Inr (nestedList n) | Val v \<Rightarrow> Inl AttributeError)"

definition item_ID :: "item \<Rightarrow> error + pyval" where
  "item_ID it = (case it of Ncl n \<Rightarrow> Inr (ID n) | Val v \<Rightarrow> Inl AttributeError)"

text \<open>
  The output callback is modelled by the trace of its calls: each call
  \<^verbatim>\<open>output(nestedList, ID)\<close> adds the pair of its arguments at the end.
\<close>

type_synonym trace = "(pyval \<times> pyval) list"

definition output_item :: "trace \<Rightarrow> item \<Rightarrow> error + trace" where
  "output_item out it =
     ebind (item_nestedList it) (\<lambda>nl.
     ebind (item_ID it) (\<lambda>i. Inr (out @ [(nl, i)])))"

text \<open>
  \<^verbatim>\<open>LazyLevel.findContainingNcl\<close>, as a loop over the stack \<^verbatim>\<open>self.ncls\<close>.
  The result is the returned value (\<^verbatim>\<open>None\<close> for the bare \<^verbatim>\<open>return\<close>) or the
  exception, with the stack, the store and the output trace.
\<close>

function findContainingNcl_loop ::
  "item list \<Rightarrow> trace \<Rightarrow> NCList \<Rightarrow> pyval \<Rightarrow> heap
     \<Rightarrow> (error + pyval) \<times> item list \<times> heap \<times> trace" where
  "findContainingNcl_loop stack out newNcl lazyFeat h =
     (if length stack > 0 then
        (let existingNcl = last stack in
         case ebind (item_maxEnd existingNcl) (py_lt (maxEnd newNcl)) of
           Inl e \<Rightarrow> (Inl e, stack, h, out)
         | Inr True \<Rightarrow>
             (case existingNcl of
                Val v \<Rightarrow> (Inl AttributeError, stack, h, out)
              | Ncl n \<Rightarrow>
                  (case addFeatures n [lazyFeat] h of
                     (Some e, n', h') \<Rightarrow> (Inl e, butlast stack @ [Ncl n'], h', out)
                   | (None, n', h') \<Rightarrow>
                       (Inr PNone, butlast stack @ [Ncl n'] @ [Val lazyFeat], h', out)))
         | Inr False \<Rightarrow>
             (case output_item out existingNcl of
                Inl e \<Rightarrow> (Inl e, stack, h, out)
              | Inr out' \<Rightarrow> findContainingNcl_loop (butlast stack) out' newNcl lazyFeat h))
      else (Inr lazyFeat, stack @ [Ncl newNcl], h, out))"
  by pat_completeness auto
termination
  by (relation "measure (\<lambda>(stack, out, newNcl, lazyFeat, h). length stack)") auto

definition findContainingNcl ::
  "LazyLevel \<Rightarrow> trace \<Rightarrow> NCList \<Rightarrow> pyval \<Rightarrow> heap
     \<Rightarrow> (error + pyval) \<times> LazyLevel \<times> heap \<times> trace" where
  "findContainingNcl level out newNcl lazyFeat h =
     (case findContainingNcl_loop (ncls level) out newNcl lazyFeat h of
        (r, stack, h', out') \<Rightarrow> (r, level\<lparr>ncls := stack\<rparr>, h', out'))"

section \<open>LazyNCList\<close>

text \<open>
  The object state of \<^verbatim>\<open>class LazyNCList\<close>. \<^verbatim>\<open>__init__\<close> assigns neither
  \<^verbatim>\<open>lastAdded\<close> nor \<^verbatim>\<open>chunkSizes\<close> nor \<^verbatim>\<open>topLevel\<close>: an attribute of
  the object that may be absent is an option, \<open>None\<close> while it has not been assigned.
  The size estimator \<^verbatim>\<open>measure\<close> is a function of the store and the record; the
  callback \<^verbatim>\<open>output\<close> is the trace \<open>emitted\<close> of its calls.
\<close>

record LazyNCList =
  startIndex :: int
  endIndex :: int
  sublistIndex :: int
  lazyIndex :: int
  measure_fn :: "heap \<Rightarrow> pyval \<Rightarrow> int"
  emitted :: trace
  sizeThresh :: int
  topList :: addr
  levels :: "LazyLevel list"
  chunkNum :: int
  lastAdded :: "pyval option"
  chunkSizes :: "pyval option"
  topLevel :: "NCList option"

text \<open>\<^verbatim>\<open>LazyNCList.__init__\<close>.\<close>

definition LazyNCList_init ::
  "int \<Rightarrow> int \<Rightarrow> int \<Rightarrow> int \<Rightarrow> (heap \<Rightarrow> pyval \<Rightarrow> int) \<Rightarrow> int \<Rightarrow> heap \<Rightarrow> LazyNCList \<times> heap" where
  "LazyNCList_init startIx endIx sublistIx lazyIx msr sizeThr h =
     (case alloc h [] of (a, h') \<Rightarrow>
        (\<lparr> startIndex = startIx, endIndex = endIx, sublistIndex = sublistIx,
            lazyIndex = lazyIx, measure_fn = msr, emitted = [],
            sizeThresh = sizeThr, topList = a, levels = [LazyLevel_init],
            chunkNum = 0, lastAdded = None, chunkSizes = None, topLevel = None \<rparr>, h'))"

text \<open>The method \<^verbatim>\<open>LazyNCList.nestedList\<close> returns \<^verbatim>\<open>self.topList\<close>.\<close>

definition lazy_nestedList :: "LazyNCList \<Rightarrow> pyval" where
  "lazy_nestedList s = PRef (topList s)"

text \<open>
  \<^verbatim>\<open>LazyNCList.makeNcl\<close>: \<^verbatim>\<open>result.ID(self.chunkNum)\<close> calls the attribute
  \<^verbatim>\<open>ID\<close> of the new object.
\<close>

definition makeNcl ::
  "LazyNCList \<Rightarrow> LazyLevel \<Rightarrow> heap \<Rightarrow> (error + NCList) \<times> LazyNCList \<times> heap" where
  "makeNcl s level h =
     (case NCList_init (startIndex s) (endIndex s) (sublistIndex s) h of
        (result, h1) \<Rightarrow>
          (case py_call (ID result) (PInt (chunkNum s)) of
             Inl e \<Rightarrow> (Inl e, s, h1)
           | Inr _ \<Rightarrow>
               (let s1 = s\<lparr>chunkNum := chunkNum s + 1\<rparr> in
                case addFeatures result (current level) h1 of
                  (Some e, result', h2) \<Rightarrow> (Inl e, s1, h2)
                | (None, result', h2) \<Rightarrow> (Inr result', s1, h2))))"

text \<open>
  \<^verbatim>\<open>LazyNCList.makeLazyFeat\<close>: three item assignments into the new list
  \<^verbatim>\<open>result = []\<close>; the third evaluates the unbound name \<^verbatim>\<open>chunk\<close>; the
  function has no \<^verbatim>\<open>return\<close> statement.
\<close>

definition makeLazyFeat :: "LazyNCList \<Rightarrow> NCList \<Rightarrow> heap \<Rightarrow> (error + pyval) \<times> heap" where
  "makeLazyFeat s newNcl h =
     (case alloc h [] of (r, h1) \<Rightarrow>
        (case setitem h1 (PRef r) (startIndex s) (minStart newNcl) of
           Inl e \<Rightarrow> (Inl e, h1)
         | Inr h2 \<Rightarrow>
             (case setitem h2 (PRef r) (endIndex s) (maxEnd newNcl) of
                Inl e \<Rightarrow> (Inl e, h2)
              | Inr h3 \<Rightarrow> (Inl NameError, h3))))"

text \<open>
  The test that ends the partial chunk of a level in \<^verbatim>\<open>addSorted\<close>, evaluated
  after \<^verbatim>\<open>level.chunkSize += featSize\<close>:
  \<^verbatim>\<open>chunkSize > sizeThresh or (precedingFeat is not None and
  precedingFeat[start] == current[0][start] and precedingFeat[end] < feat[end])\<close>.
\<close>

definition chunkFull :: "LazyNCList \<Rightarrow> LazyLevel \<Rightarrow> pyval \<Rightarrow> heap \<Rightarrow> error + bool" where
  "chunkFull s level feat h =
     (if chunkSize level > sizeThresh s then Inr True
      else if \<not> (precedingFeat level \<noteq> PNone) then Inr False
      else
        ebind (getitem h (precedingFeat level) (startIndex s)) (\<lambda>ps.
        ebind (list_get (current level) 0) (\<lambda>c0.
        ebind (getitem h c0 (startIndex s)) (\<lambda>cs.
          if \<not> py_eq ps cs then Inr False
          else
            ebind (getitem h (precedingFeat level) (endIndex s)) (\<lambda>pe.
            ebind (getitem h feat (endIndex s)) (\<lambda>fe.
              py_lt pe fe))))))"

text \<open>
  How one pass through the body of \<^verbatim>\<open>for level in self.levels\<close> ends: the method
  returns, an exception is raised, or the loop goes on to the next level with the value
  \<^verbatim>\<open>feat\<close> now has.
\<close>

datatype flow = Returned | Raised error | Continue pyval

definition addSorted_level ::
  "LazyNCList \<Rightarrow> pyval \<Rightarrow> LazyLevel \<Rightarrow> heap \<Rightarrow> flow \<times> LazyLevel \<times> LazyNCList \<times> heap" where
  "addSorted_level s feat level0 h =
     (let featSize = measure_fn s h feat;
          level = level0\<lparr>chunkSize := chunkSize level0 + featSize\<rparr> in
      case chunkFull s level feat h of
        Inl e \<Rightarrow> (Raised e, level, s, h)
      | Inr False \<Rightarrow> (Returned, level\<lparr>current := current level @ [feat]\<rparr>, s, h)
      | Inr True \<Rightarrow>
          (case makeNcl s level h of
             (Inl e, s1, h1) \<Rightarrow> (Raised e, level, s1, h1)
           | (Inr newNcl, s1, h1) \<Rightarrow>
               (case list_get (current level) (- 1) of
                  Inl e \<Rightarrow> (Raised e, level, s1, h1)
                | Inr lastf \<Rightarrow>
                    (let level1 = level\<lparr>precedingFeat := lastf, current := [feat],
                                        chunkSize := featSize\<rparr> in
                     case makeLazyFeat s1 newNcl h1 of
                       (Inl e, h2) \<Rightarrow> (Raised e, level1, s1, h2)
                     | (Inr lazyFeat, h2) \<Rightarrow>
                         (case findContainingNcl level1 (emitted s1) newNcl lazyFeat h2 of
                            (Inl e, level2, h3, out) \<Rightarrow>
                              (Raised e, level2, s1\<lparr>emitted := out\<rparr>, h3)
                          | (Inr feat', level2, h3, out) \<Rightarrow>
                              (if feat' = PNone
                               then (Returned, level2, s1\<lparr>emitted := out\<rparr>, h3)
                               else (Continue feat', level2, s1\<lparr>emitted := out\<rparr>, h3)))))))"

fun addSorted_loop ::
  "LazyNCList \<Rightarrow> pyval \<Rightarrow> LazyLevel list \<Rightarrow> heap \<Rightarrow> flow \<times> LazyLevel list \<times> LazyNCList \<times> heap" where
  "addSorted_loop s feat [] h = (Continue feat, [], s, h)"
| "addSorted_loop s feat (level # rest) h =
     (case addSorted_level s feat level h of
        (Continue feat', level', s', h') \<Rightarrow>
          (case addSorted_loop s' feat' rest h' of
             (fl, rest', s'', h'') \<Rightarrow> (fl, level' # rest', s'', h''))
      | (Returned, level', s', h') \<Rightarrow> (Returned, level' # rest, s', h')
      | (Raised e, level', s', h') \<Rightarrow> (Raised e, level' # rest, s', h'))"

text \<open>
  \<^verbatim>\<open>LazyNCList.addSorted\<close>. The levels are objects mutated in place; the loop
  returns them and they are stored back. The result is the exception raised, if any.
\<close>

definition addSorted :: "LazyNCList \<Rightarrow> pyval \<Rightarrow> heap \<Rightarrow> error option \<times> LazyNCList \<times> heap" where
  "addSorted s feat h =
     (case lastAdded s of
        None \<Rightarrow> (Some AttributeError, s, h)
      | Some la \<Rightarrow>
          (case (if la \<noteq> PNone then notSorted h la feat (startIndex s) (endIndex s)
                 else Inr False) of
             Inl e \<Rightarrow> (Some e, s, h)
           | Inr True \<Rightarrow> (Some InputNotSortedError, s, h)
           | Inr False \<Rightarrow>
               (let s1 = s\<lparr>lastAdded := Some feat\<rparr> in
                case chunkSizes s1 of
                  None \<Rightarrow> (Some AttributeError, s1, h)
                | Some cs \<Rightarrow>
                    (case addSorted_loop s1 feat (levels s1) h of
                       (Raised e, lv, s2, h2) \<Rightarrow> (Some e, s2\<lparr>levels := lv\<rparr>, h2)
                     | (Returned, lv, s2, h2) \<Rightarrow> (None, s2\<lparr>levels := lv\<rparr>, h2)
                     | (Continue feat', lv, s2, h2) \<Rightarrow>
                         (None,
                          s2\<lparr>levels := lv @ [LazyLevel_init\<lparr>current := [feat']\<rparr>]\<rparr>,
                          h2)))))"

text \<open>\<^verbatim>\<open>for ncl in level.ncls: self.output(ncl.nestedList, ncl.ID)\<close>.\<close>

fun output_all :: "trace \<Rightarrow> item list \<Rightarrow> error option \<times> trace" where
  "output_all out [] = (None, out)"
| "output_all out (it # its) =
     (case output_item out it of
        Inl e \<Rightarrow> (Some e, out)
      | Inr out' \<Rightarrow> output_all out' its)"

text \<open>
  The loop of \<^verbatim>\<open>finish\<close> over \<^verbatim>\<open>self.levels[0:len(self.levels) - 1]\<close>, with
  the local variable \<^verbatim>\<open>lazyFeat\<close>.
\<close>

fun finish_loop ::
  "LazyNCList \<Rightarrow> pyval \<Rightarrow> LazyLevel list \<Rightarrow> heap
     \<Rightarrow> (error + pyval) \<times> LazyLevel list \<times> LazyNCList \<times> heap" where
  "finish_loop s lazyFeat [] h = (Inr lazyFeat, [], s, h)"
| "finish_loop s lazyFeat (level0 # rest) h =
     (let level = (if lazyFeat \<noteq> PNone
                   then level0\<lparr>current := current level0 @ [lazyFeat]\<rparr> else level0) in
      case makeNcl s level h of
        (Inl e, s1, h1) \<Rightarrow> (Inl e, level # rest, s1, h1)
      | (Inr newNcl, s1, h1) \<Rightarrow>
          (case makeLazyFeat s1 newNcl h1 of
             (Inl e, h2) \<Rightarrow> (Inl e, level # rest, s1, h2)
           | (Inr lf, h2) \<Rightarrow>
               (case findContainingNcl level (emitted s1) newNcl lf h2 of
                  (Inl e, level2, h3, out) \<Rightarrow>
                    (Inl e, level2 # rest, s1\<lparr>emitted := out\<rparr>, h3)
                | (Inr lf', level2, h3, out) \<Rightarrow>
                    (case output_all out (ncls level2) of
                       (Some e, out') \<Rightarrow> (Inl e, level2 # rest, s1\<lparr>emitted := out'\<rparr>, h3)
                     | (None, out') \<Rightarrow>
                         (case finish_loop (s1\<lparr>emitted := out'\<rparr>) lf' rest h3 of
                            (r, rest', s2, h4) \<Rightarrow> (r, level2 # rest', s2, h4))))))"

text \<open>
  \<^verbatim>\<open>LazyNCList.finish\<close>. The method has no \<^verbatim>\<open>return\<close> statement: when it
  completes, its value is \<^verbatim>\<open>None\<close>, and the new root is stored in the attribute
  \<^verbatim>\<open>topLevel\<close>.
\<close>

definition finish :: "LazyNCList \<Rightarrow> heap \<Rightarrow> (error + pyval) \<times> LazyNCList \<times> heap" where
  "finish s h =
     (case finish_loop s PNone (butlast (levels s)) h of
        (Inl e, lv, s1, h1) \<Rightarrow>
          (Inl e, s1\<lparr>levels := lv @ drop (length lv) (levels s)\<rparr>, h1)
      | (Inr lazyFeat, lv, s1, h1) \<Rightarrow>
          (case list_get (levels s) (- 1) of
             Inl e \<Rightarrow> (Inl e, s1\<lparr>levels := lv @ drop (length lv) (levels s)\<rparr>, h1)
           | Inr level0 \<Rightarrow>
               (let level = (if lazyFeat \<noteq> PNone
                             then level0\<lparr>current := current level0 @ [lazyFeat]\<rparr>
                             else level0);
                    s2 = s1\<lparr>levels := lv @ [level]\<rparr> in
                case makeNcl s2 level h1 of
                  (Inl e, s3, h2) \<Rightarrow> (Inl e, s3, h2)
                | (Inr newNcl, s3, h2) \<Rightarrow> (Inr PNone, s3\<lparr>topLevel := Some newNcl\<rparr>, h2))))"

section \<open>Auxiliary notions and example states\<close>

text \<open>
  \<open>same_but a sl h h'\<close>: the object at address \<open>a\<close> has in \<open>h'\<close> the length it
  has in \<open>h\<close>, and the same value in every slot except the one index \<open>sl\<close> denotes.
\<close>

definition same_but :: "addr \<Rightarrow> int \<Rightarrow> heap \<Rightarrow> heap \<Rightarrow> bool" where
  "same_but a sl h h' \<longleftrightarrow>
     a < length h' \<and> length (h' ! a) = length (h ! a) \<and>
     (\<forall>k < length (h ! a).
        norm_index (length (h ! a)) sl \<noteq> Some k \<longrightarrow> h' ! a ! k = h ! a ! k)"

text \<open>
  An interval record with four slots: start, end, an empty sublist slot and an empty
  lazy-payload slot. The examples use the slot indices 0, 1, 2 and 3 for them.
\<close>

definition interval :: "int \<Rightarrow> int \<Rightarrow> pyval list" where
  "interval s e = [PInt s, PInt e, PNone, PNone]"

text \<open>The records [1,100], [10,50], [20,30], [60,90] at the addresses 0 to 3.\<close>

definition ex_heap :: heap where
  "ex_heap = [interval 1 100, interval 10 50, interval 20 30, interval 60 90]"

definition ex_features :: "pyval list" where
  "ex_features = [PRef 0, PRef 1, PRef 2, PRef 3]"

text \<open>The unit size estimator.\<close>

definition unit_measure :: "heap \<Rightarrow> pyval \<Rightarrow> int" where
  "unit_measure h v = 1"

text \<open>Two records out of order: [5,10] followed by [1,3].\<close>

definition unsorted_heap :: heap where
  "unsorted_heap = [interval 5 10, interval 1 3]"

text \<open>Two sorted records: [3,7] followed by [5,20].\<close>

definition pair_heap :: heap where
  "pair_heap = [interval 3 7, interval 5 20]"

text \<open>
  A level whose stack holds one chunk spanning [1,100] (top list at address 1, holding
  the record at address 0), a new chunk spanning [10,50] (top list at address 3) and its
  placeholder record at address 2.
\<close>

definition lvl_heap :: heap where
  "lvl_heap = [interval 1 100, [PRef 0], interval 10 50, []]"

definition lvl_existing :: NCList where
  "lvl_existing =
     \<lparr> NCList.startIndex = 0, endIndex = 1, sublistIndex = 2, sublistStack = [],
       count = 0, lastAdded = PRef 0, minStart = PInt 1, maxEnd = PInt 100,
       curList = 1, topList = 1, ID = PNone \<rparr>"

definition lvl_new :: NCList where
  "lvl_new =
     \<lparr> NCList.startIndex = 0, endIndex = 1, sublistIndex = 2, sublistStack = [],
       count = 0, lastAdded = PNone, minStart = PInt 10, maxEnd = PInt 50,
       curList = 3, topList = 3, ID = PNone \<rparr>"

definition lvl_level :: LazyLevel where
  "lvl_level = LazyLevel_init\<lparr>ncls := [Ncl lvl_existing]\<rparr>"

text \<open>
  A tier of a builder with unit sizes and threshold 5: the previous chunk ended with
  [1,30], the partial chunk holds [1,20], and [2,25] (address 2) or [2,40] (address 3)
  arrives.
\<close>

definition roomy_heap :: heap where
  "roomy_heap = [interval 1 30, interval 1 20, interval 2 25, interval 2 40, []]"

definition roomy_builder :: LazyNCList where
  "roomy_builder =
     fst (LazyNCList_init 0 1 2 3 unit_measure 5
            [interval 1 30, interval 1 20, interval 2 25, interval 2 40])"

definition roomy_level :: LazyLevel where
  "roomy_level = LazyLevel_init\<lparr>precedingFeat := PRef 0, current := [PRef 1], chunkSize := 1\<rparr>"

text \<open>
  A builder over \<open>ex_heap\<close> whose \<open>lastAdded\<close> already holds a record, so that
  \<^verbatim>\<open>addFeatures\<close> takes its initialising branch.
\<close>

definition primed_heap :: heap where
  "primed_heap = snd (NCList_init 0 1 2 ex_heap)"

definition primed_ncl :: NCList where
  "primed_ncl = (fst (NCList_init 0 1 2 ex_heap))\<lparr>NCList.lastAdded := PRef 0\<rparr>"

section \<open>Basic facts\<close>

lemma norm_index_empty: "norm_index 0 i = None"
  by (simp add: norm_index_def)

text \<open>
  With \<open>lastAdded\<close> still \<^verbatim>\<open>None\<close> the guard of \<^verbatim>\<open>addFeatures\<close> skips the
  initialisation, and the first pass of the loop subscripts \<^verbatim>\<open>None\<close>.
\<close>

lemma addFeatures_None_raises:
  "NCList.lastAdded n = PNone \<Longrightarrow> features \<noteq> [] \<Longrightarrow>
   addFeatures n features h = (Some TypeError, n, h)"
  by (cases features) (simp_all add: addFeatures_def notSorted_def getitem_def ebind_def)

lemma addFeatures_None_empty:
  "NCList.lastAdded n = PNone \<Longrightarrow> addFeatures n [] h = (None, n, h)"
  by (simp add: addFeatures_def)

text \<open>
  \<^verbatim>\<open>makeNcl\<close> never returns: the attribute \<^verbatim>\<open>ID\<close> of a new \<^verbatim>\<open>NCList\<close>
  is \<^verbatim>\<open>None\<close>, and the method calls it.
\<close>

lemma makeNcl_raises: "makeNcl s level h = (Inl TypeError, s, h @ [[]])"
  by (simp add: makeNcl_def NCList_init_def alloc_def)

lemma finish_loop_raises:
  "lvs \<noteq> [] \<Longrightarrow>
   finish_loop s PNone lvs h = (Inl TypeError, lvs, s, h @ [[]])"
  by (cases lvs) (simp_all add: makeNcl_raises)

text \<open>
  Hence \<^verbatim>\<open>finish\<close> never completes either, whatever the state of the builder; it
  leaves the object as it was and the store with one more empty list.
\<close>

lemma finish_raises:
  "finish s h =
     (Inl (if levels s = [] then IndexError else TypeError), s,
      if levels s = [] then h else h @ [[]])"
proof (cases "levels s")
  case Nil
  then show ?thesis
    by (simp add: finish_def list_get_def norm_index_def)
next
  case (Cons l ls)
  show ?thesis
  proof (cases ls)
    case Nil
    with Cons have "s\<lparr>levels := [l]\<rparr> = s" by simp
    with Cons Nil show ?thesis
      by (simp add: finish_def list_get_def norm_index_def makeNcl_raises)
  next
    case (Cons l2 ls2)
    with \<open>levels s = l # ls\<close> have ne: "butlast (levels s) \<noteq> []" by simp
    have "levels s \<noteq> []" using \<open>levels s = l # ls\<close> by simp
    then have "butlast (levels s) @ drop (length (butlast (levels s))) (levels s) = levels s"
      by (metis append_butlast_last_id append_eq_conv_conj)
    then have "s\<lparr>levels := butlast (levels s) @ drop (length (butlast (levels s))) (levels s)\<rparr> = s"
      by simp
    with finish_loop_raises[OF ne, of s h] \<open>levels s = l # ls\<close> show ?thesis
      by (simp add: finish_def)
  qed
qed

section \<open>What the checks and the level do once they are reached\<close>

text \<open>On integer coordinates the sortedness test is the one of the specification.\<close>

lemma notSorted_ints:
  "getitem h a st = Inr (PInt as) \<Longrightarrow> getitem h b st = Inr (PInt bs) \<Longrightarrow>
   getitem h a en = Inr (PInt ae) \<Longrightarrow> getitem h b en = Inr (PInt be) \<Longrightarrow>
   notSorted h a b st en = Inr (as > bs \<or> (as = bs \<and> ae < be))"
  by (auto simp: notSorted_def ebind_def py_eq_def)

text \<open>
  Both methods do raise \<^verbatim>\<open>InputNotSortedError\<close> from a state in which
  \<open>lastAdded\<close> holds a record; no call sequence on a new object leads to such a state.
\<close>

lemma addSorted_checks_when_lastAdded_set:
  "LazyNCList.lastAdded s = Some a \<Longrightarrow>
   notSorted h a feat (LazyNCList.startIndex s) (LazyNCList.endIndex s) = Inr True \<Longrightarrow>
   addSorted s feat h = (Some InputNotSortedError, s, h)"
  by (cases a) (auto simp: addSorted_def notSorted_def getitem_def ebind_def)

lemma addFeatures_checks_when_lastAdded_set:
  "NCList.lastAdded n \<noteq> PNone \<Longrightarrow>
   getitem h a (NCList.startIndex n) = Inr s0 \<Longrightarrow>
   getitem h a (NCList.endIndex n) = Inr e0 \<Longrightarrow>
   list_append h (curList n) a = Inr h1 \<Longrightarrow>
   notSorted h1 a b (NCList.startIndex n) (NCList.endIndex n) = Inr True \<Longrightarrow>
   addFeatures n (a # b # rest) h =
     (Some InputNotSortedError, n\<lparr>NCList.lastAdded := a, minStart := s0, maxEnd := e0\<rparr>, h1)"
  by (simp add: addFeatures_def list_get_def norm_index_def)

text \<open>
  Started with \<open>lastAdded\<close> set, \<^verbatim>\<open>addFeatures\<close> nests the four example records:
  the top list (address 4) holds [1,100], whose sublist (address 5) holds [10,50] and
  [60,90], and the sublist of [10,50] (address 6) holds [20,30].
\<close>

lemma primed_run:
  "addFeatures primed_ncl ex_features primed_heap =
     (None,
      primed_ncl\<lparr>NCList.lastAdded := PRef 3, minStart := PInt 1, maxEnd := PInt 100,
                 sublistStack := [4], curList := 5\<rparr>,
      [[PInt 1, PInt 100, PRef 5, PNone], [PInt 10, PInt 50, PRef 6, PNone],
       interval 20 30, interval 60 90, [PRef 0], [PRef 1, PRef 3], [PRef 2]])"
  by code_simp

text \<open>
  The three branches of \<^verbatim>\<open>findContainingNcl\<close>: an empty stack takes the new chunk
  and hands the placeholder back; a top chunk that does not end after the new chunk is
  flushed and popped; a top chunk that does gets the placeholder added, and then the
  placeholder is what is pushed.
\<close>

lemma findContainingNcl_empty:
  "ncls level = [] \<Longrightarrow>
   findContainingNcl level out newNcl lazyFeat h =
     (Inr lazyFeat, level\<lparr>ncls := [Ncl newNcl]\<rparr>, h, out)"
  by (simp add: findContainingNcl_def)

lemma findContainingNcl_loop_flush:
  "maxEnd newNcl = PInt x \<Longrightarrow> maxEnd e = PInt y \<Longrightarrow> \<not> x < y \<Longrightarrow>
   findContainingNcl_loop (stack @ [Ncl e]) out newNcl lazyFeat h =
     findContainingNcl_loop stack (out @ [(nestedList e, ID e)]) newNcl lazyFeat h"
  by (subst findContainingNcl_loop.simps)
     (simp add: item_maxEnd_def ebind_def output_item_def item_nestedList_def item_ID_def)

lemma findContainingNcl_loop_nest:
  "maxEnd newNcl = PInt x \<Longrightarrow> maxEnd e = PInt y \<Longrightarrow> x < y \<Longrightarrow>
   addFeatures e [lazyFeat] h = (None, e', h') \<Longrightarrow>
   findContainingNcl_loop (stack @ [Ncl e]) out newNcl lazyFeat h =
     (Inr PNone, stack @ [Ncl e', Val lazyFeat], h', out)"
  by (subst findContainingNcl_loop.simps) (simp add: item_maxEnd_def ebind_def)

text \<open>
  The loop over the tiers is entered only when both \<^verbatim>\<open>lastAdded\<close> and
  \<^verbatim>\<open>chunkSizes\<close> are present. While \<^verbatim>\<open>chunkSizes\<close> is absent a call of
  \<^verbatim>\<open>addSorted\<close> raises and leaves the tiers, the chunk counter, the output trace
  and the store as they are, and the attribute stays absent; \<^verbatim>\<open>finish\<close> changes
  nothing either (lemma \<open>finish_raises\<close>). So no sequence of calls on a new builder
  reaches the chunk test.
\<close>

lemma addSorted_without_chunkSizes:
  assumes "chunkSizes s = None"
  shows "fst (addSorted s feat h) \<noteq> None \<and>
         chunkSizes (fst (snd (addSorted s feat h))) = None \<and>
         levels (fst (snd (addSorted s feat h))) = levels s \<and>
         chunkNum (fst (snd (addSorted s feat h))) = chunkNum s \<and>
         emitted (fst (snd (addSorted s feat h))) = emitted s \<and>
         snd (snd (addSorted s feat h)) = h"
  using assms by (auto simp: addSorted_def split: option.splits sum.splits bool.splits)

text \<open>
  What the body of the loop does on a tier state set up by hand. With no previous chunk
  only the size test can end the partial chunk; with a previous chunk that ended with a
  record, either the size test or the same-start test sends the record into the branch
  that closes the partial chunk, where \<^verbatim>\<open>makeNcl\<close> raises; otherwise the record is
  appended.
\<close>

lemma addSorted_level_no_preceding:
  "precedingFeat level = PNone \<Longrightarrow>
   addSorted_level s feat level h =
     (if chunkSize level + measure_fn s h feat > sizeThresh s
      then (Raised TypeError, level\<lparr>chunkSize := chunkSize level + measure_fn s h feat\<rparr>,
            s, h @ [[]])
      else (Returned,
            level\<lparr>chunkSize := chunkSize level + measure_fn s h feat,
                  current := current level @ [feat]\<rparr>, s, h))"
  by (simp add: addSorted_level_def chunkFull_def Let_def makeNcl_raises)

lemma addSorted_level_with_preceding:
  assumes "getitem h (precedingFeat level) (LazyNCList.startIndex s) = Inr (PInt ps)"
    and "list_get (current level) 0 = Inr c0"
    and "getitem h c0 (LazyNCList.startIndex s) = Inr (PInt cs)"
    and "getitem h (precedingFeat level) (LazyNCList.endIndex s) = Inr (PInt pe)"
    and "getitem h feat (LazyNCList.endIndex s) = Inr (PInt fe)"
  shows "addSorted_level s feat level h =
     (if chunkSize level + measure_fn s h feat > sizeThresh s \<or> (ps = cs \<and> pe < fe)
      then (Raised TypeError, level\<lparr>chunkSize := chunkSize level + measure_fn s h feat\<rparr>,
            s, h @ [[]])
      else (Returned,
            level\<lparr>chunkSize := chunkSize level + measure_fn s h feat,
                  current := current level @ [feat]\<rparr>, s, h))"
proof -
  let ?level = "level\<lparr>chunkSize := chunkSize level + measure_fn s h feat\<rparr>"
  from assms(1) have pf: "precedingFeat level \<noteq> PNone"
    by (auto simp: getitem_def)
  from assms pf have cf:
    "chunkFull s ?level feat h =
       Inr (chunkSize level + measure_fn s h feat > sizeThresh s \<or> (ps = cs \<and> pe < fe))"
    by (simp add: chunkFull_def ebind_def py_eq_def)
  show ?thesis
  proof (cases "chunkSize level + measure_fn s h feat > sizeThresh s \<or> (ps = cs \<and> pe < fe)")
    case True
    with cf have "chunkFull s ?level feat h = Inr True" by simp
    then have "addSorted_level s feat level h = (Raised TypeError, ?level, s, h @ [[]])"
      by (simp add: addSorted_level_def Let_def makeNcl_raises)
    with True show ?thesis by simp
  next
    case False
    with cf have "chunkFull s ?level feat h = Inr False" by simp
    then have "addSorted_level s feat level h =
                 (Returned, ?level\<lparr>current := current ?level @ [feat]\<rparr>, s, h)"
      by (simp add: addSorted_level_def Let_def)
    with False show ?thesis by simp
  qed
qed

text \<open>
  Two instances on the sorted records [1,30], [1,20] and then [2,25] or [2,40], with the
  previous chunk ended by [1,30] and the partial chunk holding [1,20], under a threshold
  that leaves room. [2,25] does not end beyond 30 and is appended; [2,40] does, and the
  same-start test alone sends it into the closing branch.
\<close>

lemma roomy_record_is_appended:
  "addSorted_level roomy_builder (PRef 2) roomy_level roomy_heap =
     (Returned, roomy_level\<lparr>chunkSize := 2, current := [PRef 1, PRef 2]\<rparr>,
      roomy_builder, roomy_heap)"
  by (simp add: addSorted_level_def chunkFull_def roomy_builder_def roomy_level_def
        roomy_heap_def LazyNCList_init_def alloc_def LazyLevel_init_def
        unit_measure_def getitem_def list_get_def norm_index_def interval_def ebind_def
        py_eq_def)

lemma same_start_test_closes_chunk:
  "addSorted_level roomy_builder (PRef 3) roomy_level roomy_heap =
     (Raised TypeError, roomy_level\<lparr>chunkSize := 2\<rparr>, roomy_builder, roomy_heap @ [[]])"
  by (simp add: addSorted_level_def chunkFull_def roomy_builder_def roomy_level_def
        roomy_heap_def LazyNCList_init_def alloc_def LazyLevel_init_def makeNcl_raises
        unit_measure_def getitem_def list_get_def norm_index_def interval_def ebind_def
        py_eq_def)

section \<open>The builder writes only the sublist slot of a record\<close>

text \<open>
  The proofs of this section never look into the comparisons: whichever way a test goes,
  the only writes are an allocation, an \<^verbatim>\<open>append\<close> to one of the builder's open
  lists and the assignment to the slot \<open>sublistIndex\<close> of \<open>lastAdded\<close>.
\<close>

lemma same_but_refl: "a < length h \<Longrightarrow> same_but a sl h h"
  by (simp add: same_but_def)

lemma same_but_trans:
  "same_but a sl h h1 \<Longrightarrow> same_but a sl h1 h2 \<Longrightarrow> same_but a sl h h2"
  by (simp add: same_but_def)

lemma same_but_same: "a < length h' \<Longrightarrow> h' ! a = h ! a \<Longrightarrow> same_but a sl h h'"
  by (simp add: same_but_def)

lemma alloc_other:
  "alloc h xs = (c, h1) \<Longrightarrow> a < length h \<Longrightarrow> c \<noteq> a \<and> a < length h1 \<and> h1 ! a = h ! a"
  by (auto simp: alloc_def nth_append)

lemma list_append_other:
  "list_append h c x = Inr h1 \<Longrightarrow> a < length h \<Longrightarrow> c \<noteq> a \<Longrightarrow>
   a < length h1 \<and> h1 ! a = h ! a"
  by (auto simp: list_append_def split: if_splits)

lemma setitem_same_but:
  "setitem h v sl x = Inr h1 \<Longrightarrow> a < length h \<Longrightarrow> same_but a sl h h1"
  by (cases v)
     (auto simp: setitem_def same_but_def nth_list_update split: if_splits option.splits)

text \<open>
  The search loop only appends to the current list or to a list popped from the stack;
  an object that is neither is untouched. Computation induction over the loop.
\<close>

lemma findSublist_other:
  "findSublist h feat e stack cur = (r, stack', h') \<Longrightarrow> a < length h \<Longrightarrow> a \<noteq> cur \<Longrightarrow>
   a \<notin> set stack \<Longrightarrow>
   a < length h' \<and> h' ! a = h ! a \<and> a \<notin> set stack' \<and> (\<forall>c. r = Inr c \<longrightarrow> c \<noteq> a)"
proof (induction h feat e stack cur rule: findSublist.induct)
  case (1 h feat endIx stack cur)
  show ?case
  proof (cases "length stack = 0")
    case True
    with "1.prems" show ?thesis
      by (auto simp: findSublist.simps[of h feat endIx stack cur] split: sum.splits
               dest: list_append_other)
  next
    case False
    then have ne: "stack \<noteq> []" by simp
    let ?t = "ebind (getitem h (PRef (last stack)) (- 1)) (\<lambda>lf.
              ebind (getitem h lf endIx) (\<lambda>le.
              ebind (getitem h feat endIx) (\<lambda>fe. py_gt le fe)))"
    show ?thesis
    proof (cases ?t)
      case (Inl e)
      with False "1.prems" show ?thesis
        by (auto simp: findSublist.simps[of h feat endIx stack cur])
    next
      case (Inr gt)
      show ?thesis
      proof (cases gt)
        case True
        with Inr False "1.prems" show ?thesis
          by (auto simp: findSublist.simps[of h feat endIx stack cur] split: sum.splits
                   dest: list_append_other)
      next
        case gf: False
        from Inr False gf "1.prems"(1)
        have rec: "findSublist h feat endIx (butlast stack) (last stack) = (r, stack', h')"
          by (simp add: findSublist.simps[of h feat endIx stack cur])
        have a1: "a \<noteq> last stack" using ne "1.prems"(4) last_in_set by metis
        have a2: "a \<notin> set (butlast stack)" using "1.prems"(4) in_set_butlastD by metis
        from "1.IH"[OF False Inr gf rec "1.prems"(2) a1 a2] show ?thesis .
      qed
    qed
  qed
qed

lemma addSingle_same_but:
  assumes run: "addSingle h feat lastf stack cur e sl = (r, stack', h')"
    and a: "a < length h" and c: "a \<noteq> cur" and s: "a \<notin> set stack"
  shows "same_but a sl h h' \<and> a \<notin> set stack' \<and> (\<forall>c. r = Inr c \<longrightarrow> c \<noteq> a)"
proof -
  let ?t = "ebind (getitem h feat e) (\<lambda>fe. ebind (getitem h lastf e) (\<lambda>le. py_lt fe le))"
  show ?thesis
  proof (cases ?t)
    case (Inl x)
    with run a s show ?thesis by (auto simp: addSingle_def same_but_refl)
  next
    case (Inr inside)
    show ?thesis
    proof (cases inside)
      case True
      obtain c1 h1 where al: "alloc h [feat] = (c1, h1)" by (cases "alloc h [feat]")
      from alloc_other[OF al a] have o: "c1 \<noteq> a" "a < length h1" "h1 ! a = h ! a" by auto
      then have sb1: "same_but a sl h h1" by (simp add: same_but_same)
      show ?thesis
      proof (cases "setitem h1 lastf sl (PRef c1)")
        case (Inl x)
        with run Inr True al sb1 c s o show ?thesis by (auto simp: addSingle_def)
      next
        case (Inr h2)
        from setitem_same_but[OF Inr o(2)] have "same_but a sl h1 h2" .
        with sb1 have "same_but a sl h h2" by (rule same_but_trans)
        with run \<open>?t = Inr inside\<close> True al Inr c s o show ?thesis
          by (auto simp: addSingle_def)
      qed
    next
      case False
      with run Inr have "findSublist h feat e stack cur = (r, stack', h')"
        by (simp add: addSingle_def)
      from findSublist_other[OF this a c s] show ?thesis by (simp add: same_but_same)
    qed
  qed
qed

lemma addFeatures_loop_same_but:
  "addFeatures_loop fs n h = (r, n', h') \<Longrightarrow> a < length h \<Longrightarrow> a \<noteq> curList n \<Longrightarrow>
   a \<notin> set (sublistStack n) \<Longrightarrow> same_but a (NCList.sublistIndex n) h h'"
proof (induction fs arbitrary: n h)
  case Nil
  then show ?case by (simp add: same_but_refl)
next
  case (Cons feat rest)
  show ?case
  proof (cases "notSorted h (NCList.lastAdded n) feat (NCList.startIndex n) (NCList.endIndex n)")
    case (Inl e)
    with Cons.prems show ?thesis by (simp add: same_but_refl)
  next
    case (Inr b)
    show ?thesis
    proof (cases b)
      case True
      with Inr Cons.prems show ?thesis by (simp add: same_but_refl)
    next
      case False
      show ?thesis
      proof (cases "ebind (getitem h feat (NCList.endIndex n)) (py_max (maxEnd n))")
        case (Inl e)
        with Inr False Cons.prems show ?thesis by (simp add: same_but_refl)
      next
        case m: (Inr m)
        obtain r1 stack1 h1 where as:
          "addSingle h feat (NCList.lastAdded n) (sublistStack n) (curList n)
             (NCList.endIndex n) (NCList.sublistIndex n) = (r1, stack1, h1)"
          by (cases "addSingle h feat (NCList.lastAdded n) (sublistStack n) (curList n)
             (NCList.endIndex n) (NCList.sublistIndex n)") auto
        from addSingle_same_but[OF as Cons.prems(2,3,4)]
        have sb: "same_but a (NCList.sublistIndex n) h h1" and st: "a \<notin> set stack1"
          and rc: "\<forall>c. r1 = Inr c \<longrightarrow> c \<noteq> a" by auto
        show ?thesis
        proof (cases r1)
          case (Inl e)
          with Inr False m as Cons.prems(1) sb show ?thesis by (simp add: Let_def)
        next
          case c: (Inr c)
          let ?n = "n\<lparr>maxEnd := m, sublistStack := stack1, curList := c,
                      NCList.lastAdded := feat\<rparr>"
          from Inr False m as c Cons.prems(1)
          have rec: "addFeatures_loop rest ?n h1 = (r, n', h')" by (simp add: Let_def)
          have al: "a < length h1" using sb by (simp add: same_but_def)
          from Cons.IH[OF rec al] rc c st
          have "same_but a (NCList.sublistIndex n) h1 h'" by simp
          with sb show ?thesis by (rule same_but_trans)
        qed
      qed
    qed
  qed
qed

lemma addFeatures_same_but:
  assumes run: "addFeatures n fs h = (r, n', h')"
    and a: "a < length h" and c: "a \<noteq> curList n" and s: "a \<notin> set (sublistStack n)"
  shows "same_but a (NCList.sublistIndex n) h h'"
proof (cases "NCList.lastAdded n \<noteq> PNone")
  case False
  with run have "addFeatures_loop fs n h = (r, n', h')" by (simp add: addFeatures_def)
  from addFeatures_loop_same_but[OF this a c s] show ?thesis .
next
  case True
  show ?thesis
  proof (cases "list_get fs 0")
    case (Inl e)
    with run True a show ?thesis by (simp add: addFeatures_def same_but_refl)
  next
    case f0: (Inr f0)
    show ?thesis
    proof (cases "getitem h f0 (NCList.startIndex n)")
      case (Inl e)
      with run True f0 a show ?thesis by (simp add: addFeatures_def same_but_refl)
    next
      case st: (Inr st)
      show ?thesis
      proof (cases "getitem h f0 (NCList.endIndex n)")
        case (Inl e)
        with run True f0 st a show ?thesis by (simp add: addFeatures_def same_but_refl)
      next
        case en: (Inr en)
        show ?thesis
        proof (cases "list_append h (curList n) f0")
          case (Inl e)
          with run True f0 st en a show ?thesis by (simp add: addFeatures_def same_but_refl)
        next
          case (Inr h1)
          let ?n = "n\<lparr>NCList.lastAdded := f0, minStart := st, maxEnd := en\<rparr>"
          from run True f0 st en Inr
          have rec: "addFeatures_loop (drop 1 fs) ?n h1 = (r, n', h')"
            by (simp add: addFeatures_def)
          from list_append_other[OF Inr a] c have o: "a < length h1" "h1 ! a = h ! a" by auto
          from addFeatures_loop_same_but[OF rec o(1)] c s
          have "same_but a (NCList.sublistIndex n) h1 h'" by simp
          with o show ?thesis by (simp add: same_but_def)
        qed
      qed
    qed
  qed
qed

section \<open>The claims\<close>

text \<open>
  C1. Round trip: the chunks flushed by \<^verbatim>\<open>LazyNCList.addSorted\<close> and
  \<^verbatim>\<open>finish\<close>, merged with the final root, should equal the hierarchy a single
  \<^verbatim>\<open>NCList.addFeatures\<close> run builds from the same sorted input. On the records
  [1,100], [10,50], [20,30], [60,90] with unit sizes and threshold 2 neither side
  produces a hierarchy: the first \<^verbatim>\<open>addSorted\<close> raises \<^verbatim>\<open>AttributeError\<close>
  with nothing flushed, \<^verbatim>\<open>finish\<close> raises \<^verbatim>\<open>TypeError\<close>, and the single run
  raises \<^verbatim>\<open>TypeError\<close>.
\<close>

theorem round_trip_both_sides_raise:
  "(case LazyNCList_init 0 1 2 3 unit_measure 2 ex_heap of
      (s, h) \<Rightarrow>
        addSorted s (PRef 0) h = (Some AttributeError, s, h) \<and> emitted s = [] \<and>
        fst (finish s h) = Inl TypeError) \<and>
   (case NCList_init 0 1 2 ex_heap of
      (n, h) \<Rightarrow> addFeatures n ex_features h = (Some TypeError, n, h))"
  by (simp add: LazyNCList_init_def NCList_init_def alloc_def addSorted_def finish_raises
        addFeatures_None_raises ex_features_def)

text \<open>
  C2. A fresh \<^verbatim>\<open>NCList\<close> fed [1,100], [10,50], [20,30], [60,90] should end with
  the single root [1,100] holding [10,50] and [60,90], and [20,30] below [10,50]. The
  call raises \<^verbatim>\<open>TypeError\<close> at the first record, and the nested list (the object at
  address 4) stays empty.
\<close>

theorem addFeatures_example_raises:
  "(case NCList_init 0 1 2 ex_heap of
      (n, h) \<Rightarrow>
        addFeatures n ex_features h = (Some TypeError, n, h) \<and>
        nestedList n = PRef 4 \<and> h ! 4 = [])"
  by (simp add: NCList_init_def alloc_def addFeatures_None_raises ex_features_def
        nestedList_def ex_heap_def)

text \<open>
  C3. When the new chunk ends before the chunk on top of \<^verbatim>\<open>ncls\<close>,
  \<^verbatim>\<open>findContainingNcl\<close> should attach the placeholder to the top chunk, push the
  new chunk itself and return nothing. On a level holding a chunk that spans [1,100],
  with a new chunk spanning [10,50], the call returns \<^verbatim>\<open>None\<close> and flushes
  nothing, but what it pushes is the placeholder (the record at address 2), not the new
  chunk; the top chunk has the placeholder appended to its top list and its summary
  overwritten by [10,50].
\<close>

theorem findContainingNcl_pushes_placeholder:
  "findContainingNcl lvl_level [] lvl_new (PRef 2) lvl_heap =
     (Inr PNone,
      lvl_level\<lparr>ncls :=
        [Ncl (lvl_existing\<lparr>NCList.lastAdded := PRef 2, minStart := PInt 10,
                            maxEnd := PInt 50\<rparr>),
         Val (PRef 2)]\<rparr>,
      lvl_heap[1 := [PRef 0, PRef 2]], [])"
  by code_simp

text \<open>
  C4. \<^verbatim>\<open>finish\<close> should turn the last partial chunk of the topmost tier into the
  root chunk and hand it to the caller, as its result or as the builder's nested list.
  On a new builder \<^verbatim>\<open>finish\<close> raises \<^verbatim>\<open>TypeError\<close>: no root is stored,
  nothing is flushed, and the builder's nested list is the empty list made by the
  constructor.
\<close>

theorem finish_fresh_raises:
  "(case LazyNCList_init startIx endIx sublistIx lazyIx msr thr h0 of
      (s, h) \<Rightarrow>
        finish s h = (Inl TypeError, s, h @ [[]]) \<and>
        topLevel s = None \<and> emitted s = [] \<and>
        lazy_nestedList s = PRef (length h0) \<and> (h @ [[]]) ! length h0 = [])"
  by (simp add: LazyNCList_init_def alloc_def finish_raises lazy_nestedList_def nth_append)

text \<open>
  C5. Two consecutive records out of order should make \<^verbatim>\<open>addFeatures\<close> and
  \<^verbatim>\<open>addSorted\<close> raise \<^verbatim>\<open>InputNotSortedError\<close>. For [5,10] followed by
  [1,3], a fresh \<^verbatim>\<open>NCList\<close> raises \<^verbatim>\<open>TypeError\<close>, and a fresh
  \<^verbatim>\<open>LazyNCList\<close> raises \<^verbatim>\<open>AttributeError\<close> on the first record and again
  on the second.
\<close>

theorem unsorted_pair_raises_other_errors:
  "(case NCList_init 0 1 2 unsorted_heap of
      (n, h) \<Rightarrow> addFeatures n [PRef 0, PRef 1] h = (Some TypeError, n, h)) \<and>
   (case LazyNCList_init 0 1 2 3 unit_measure 10 unsorted_heap of
      (s, h) \<Rightarrow>
        addSorted s (PRef 0) h = (Some AttributeError, s, h) \<and>
        addSorted s (PRef 1) h = (Some AttributeError, s, h))"
  by (simp add: LazyNCList_init_def NCList_init_def alloc_def addSorted_def
        addFeatures_None_raises)

text \<open>
  C6. After \<^verbatim>\<open>addFeatures\<close> on a non-empty sorted input, \<^verbatim>\<open>minStart\<close> should
  be the least start and \<^verbatim>\<open>maxEnd\<close> the greatest end. For [3,7] followed by
  [5,20] on a fresh \<^verbatim>\<open>NCList\<close> the call raises \<^verbatim>\<open>TypeError\<close> and both
  attributes are still \<^verbatim>\<open>None\<close>, not 3 and 20.
\<close>

theorem addFeatures_leaves_summary_unset:
  "(case NCList_init 0 1 2 pair_heap of
      (n, h) \<Rightarrow>
        (case addFeatures n [PRef 0, PRef 1] h of
           (r, n', h') \<Rightarrow>
             r = Some TypeError \<and> minStart n' = PNone \<and> maxEnd n' = PNone))"
  by (simp add: NCList_init_def alloc_def addFeatures_None_raises)

text \<open>
  C8. \<^verbatim>\<open>makeLazyFeat\<close> should build a record with the chunk's \<^verbatim>\<open>minStart\<close>,
  \<^verbatim>\<open>maxEnd\<close> and identifier. For every builder and every chunk it raises
  \<^verbatim>\<open>IndexError\<close> at its first assignment, into the empty list it has just created.
\<close>

theorem makeLazyFeat_raises_IndexError:
  "makeLazyFeat s newNcl h = (Inl IndexError, h @ [[]])"
  by (simp add: makeLazyFeat_def alloc_def setitem_def norm_index_empty)

text \<open>
  C9. \<^verbatim>\<open>NCList.addFeatures\<close> leaves every slot of a record other than the sublist
  slot unchanged. For every state of the builder, every input and every outcome
  (completed or raised): an object of the store that is not one of the builder's own
  open lists (\<open>curList\<close> and the lists on \<open>sublistStack\<close>) keeps its length, and each
  of its slots other than the one \<open>sublistIndex\<close> denotes keeps its value; so the
  start slot, the end slot and the application's slots of every record are as they were.
\<close>

theorem addFeatures_frame:
  assumes "addFeatures n features h = (r, n', h')"
    and "a < length h" and "a \<noteq> curList n" and "a \<notin> set (sublistStack n)"
    and "k < length (h ! a)"
    and "norm_index (length (h ! a)) (NCList.sublistIndex n) \<noteq> Some k"
  shows "a < length h' \<and> length (h' ! a) = length (h ! a) \<and> h' ! a ! k = h ! a ! k"
  using addFeatures_same_but[OF assms(1-4)] assms(5,6) by (simp add: same_but_def)

text \<open>
  An instance where the builder does nest records: started with \<open>lastAdded\<close> set, it
  takes the four example records, gives [1,100] the sublist at address 5, and the end
  slot of [1,100] still holds 100.
\<close>

theorem addFeatures_frame_witness:
  "fst (addFeatures primed_ncl ex_features primed_heap) = None \<and>
   (0::nat) < length primed_heap \<and> 0 \<noteq> curList primed_ncl \<and>
   0 \<notin> set (sublistStack primed_ncl) \<and> (1::nat) < length (primed_heap ! 0) \<and>
   norm_index (length (primed_heap ! 0)) (NCList.sublistIndex primed_ncl) \<noteq> Some 1 \<and>
   snd (snd (addFeatures primed_ncl ex_features primed_heap)) ! 0 ! 1 = PInt 100 \<and>
   snd (snd (addFeatures primed_ncl ex_features primed_heap)) ! 0 ! 2 = PRef 5"
proof -
  let ?h = "[[PInt 1, PInt 100, PRef 5, PNone], [PInt 10, PInt 50, PRef 6, PNone],
             interval 20 30, interval 60 90, [PRef 0], [PRef 1, PRef 3], [PRef 2]]"
  note run = primed_run
  have hyps: "(0::nat) < length primed_heap" "0 \<noteq> curList primed_ncl"
    "0 \<notin> set (sublistStack primed_ncl)" "(1::nat) < length (primed_heap ! 0)"
    "norm_index (length (primed_heap ! 0)) (NCList.sublistIndex primed_ncl) \<noteq> Some 1"
    by (simp_all add: primed_heap_def primed_ncl_def NCList_init_def alloc_def ex_heap_def
          interval_def norm_index_def)
  from addFeatures_frame[OF run hyps]
  have "?h ! 0 ! 1 = primed_heap ! 0 ! 1" by simp
  then have "?h ! 0 ! 1 = PInt 100"
    by (simp add: primed_heap_def NCList_init_def alloc_def ex_heap_def interval_def)
  with run hyps show ?thesis by simp
qed

text \<open>
  C10. The first call of \<^verbatim>\<open>addSorted\<close> on a new \<^verbatim>\<open>LazyNCList\<close> raises before
  the record is buffered: it reads \<^verbatim>\<open>self.lastAdded\<close>, which the constructor
  never assigns, and raises \<^verbatim>\<open>AttributeError\<close> with the builder unchanged, for
  every configuration, record and store. Were that attribute present, the read of
  \<^verbatim>\<open>self.chunkSizes\<close> would raise the same error, still before any level is
  touched.
\<close>

theorem addSorted_first_call_raises:
  "(case LazyNCList_init startIx endIx sublistIx lazyIx msr thr h0 of
      (s, h1) \<Rightarrow>
        LazyNCList.lastAdded s = None \<and> chunkSizes s = None \<and>
        addSorted s feat h = (Some AttributeError, s, h) \<and>
        addSorted (s\<lparr>LazyNCList.lastAdded := Some PNone\<rparr>) feat h =
          (Some AttributeError, s\<lparr>LazyNCList.lastAdded := Some feat\<rparr>, h) \<and>
        levels s = [LazyLevel_init])"
  by (simp add: LazyNCList_init_def alloc_def addSorted_def)


end
